theory Spec2Isabelle
  imports Main
begin

section \<open>JavaScript values\<close>

text \<open>
  The two handlers read fields of an event object and build an object literal that is
  posted as JSON. Both the field values and the built document are JavaScript values.
  An object literal is an association list in the order in which the source writes its
  properties; a property that is absent reads as \<open>JUndefined\<close>.

  Strings are byte lists holding the UTF-8 encoding of the source text; the handlers only
  compare, concatenate and copy strings, so nothing depends on the unit of length.

  A number is given by its decimal expansion: \<open>Dec m e\<close> is \<open>m / 10 ^ e\<close>. This is the
  form in which a JSON payload carries a number, and for expansions of at most fifteen
  significant digits the shortest decimal that ECMAScript prints for the parsed double
  is again that expansion.
\<close>

datatype jsnum = NaN | PosInfinity | NegInfinity | Dec int nat

datatype jsval =
    JUndefined
  | JNull
  | JBool bool
  | JNum jsnum
  | JStr string
  | JArr "jsval list"
  | JObj "(string \<times> jsval) list"

text \<open>ToBoolean: the test of \<open>c ? a : b\<close>, of \<open>a || b\<close> and of the optional spread.\<close>

fun truthy :: "jsval \<Rightarrow> bool" where
  "truthy JUndefined = False"
| "truthy JNull = False"
| "truthy (JBool b) = b"
| "truthy (JNum NaN) = False"
| "truthy (JNum PosInfinity) = True"
| "truthy (JNum NegInfinity) = True"
| "truthy (JNum (Dec m e)) = (m \<noteq> 0)"
| "truthy (JStr s) = (s \<noteq> [])"
| "truthy (JArr xs) = True"
| "truthy (JObj kvs) = True"

text \<open>\<open>a || b\<close> yields \<open>a\<close> itself when it is truthy, else \<open>b\<close>.\<close>

definition js_or :: "jsval \<Rightarrow> jsval \<Rightarrow> jsval" where
  "js_or a b = (if truthy a then a else b)"

subsection \<open>Number to string\<close>

text \<open>
  ECMAScript's Number::toString for radix ten works on the triple \<open>(s, k, n)\<close>: the
  \<open>k\<close> significant digits \<open>s\<close> with no trailing zero, and the exponent \<open>n\<close> such that the
  value is \<open>0.s * 10 ^ n\<close>.
\<close>

definition digit_char :: "nat \<Rightarrow> char" where
  "digit_char d = ''0123456789'' ! (d mod 10)"

function digits_of :: "nat \<Rightarrow> string" where
  "digits_of n = (if n < 10 then [digit_char n] else digits_of (n div 10) @ [digit_char (n mod 10)])"
  by pat_completeness auto
termination
  by (relation "measure id") auto

declare digits_of.simps [simp del]

definition strip_zeros :: "string \<Rightarrow> string" where
  "strip_zeros ds = rev (dropWhile (\<lambda>c. c = CHR ''0'') (rev ds))"

definition int_digits :: "int \<Rightarrow> string" where
  "int_digits i = (if i < 0 then CHR ''-'' # digits_of (nat (- i)) else digits_of (nat i))"

definition exponent_part :: "int \<Rightarrow> string" where
  "exponent_part x = CHR ''e'' # (if x < 0 then int_digits x else CHR ''+'' # int_digits x)"

definition positive_to_string :: "nat \<Rightarrow> nat \<Rightarrow> string" where
  "positive_to_string m e =
     (let ds = digits_of m;
          s = strip_zeros ds;
          k = int (length s);
          n = int (length ds) - int e
      in if k \<le> n \<and> n \<le> 21 then s @ replicate (nat (n - k)) (CHR ''0'')
         else if 0 < n \<and> n \<le> 21 then take (nat n) s @ CHR ''.'' # drop (nat n) s
         else if - 6 < n \<and> n \<le> 0 then ''0.'' @ replicate (nat (- n)) (CHR ''0'') @ s
         else if k = 1 then s @ exponent_part (n - 1)
         else take 1 s @ CHR ''.'' # drop 1 s @ exponent_part (n - 1))"

fun number_to_string :: "jsnum \<Rightarrow> string" where
  "number_to_string NaN = ''NaN''"
| "number_to_string PosInfinity = ''Infinity''"
| "number_to_string NegInfinity = ''-Infinity''"
| "number_to_string (Dec m e) =
     (if m = 0 then ''0''
      else if m < 0 then CHR ''-'' # positive_to_string (nat (- m)) e
      else positive_to_string (nat m) e)"

subsection \<open>ToString\<close>

text \<open>
  \<open>String(v)\<close> and the substitution \<open>${v}\<close> of a template literal both apply ToString.
  A plain object prints as \<open>[object Object]\<close>; an array joins its elements with commas,
  an undefined or null element printing as the empty string.
\<close>

fun join_commas :: "string list \<Rightarrow> string" where
  "join_commas [] = []"
| "join_commas [s] = s"
| "join_commas (s # t # ss) = s @ CHR '','' # join_commas (t # ss)"

fun to_string :: "jsval \<Rightarrow> string" where
  "to_string JUndefined = ''undefined''"
| "to_string JNull = ''null''"
| "to_string (JBool b) = (if b then ''true'' else ''false'')"
| "to_string (JNum x) = number_to_string x"
| "to_string (JStr s) = s"
| "to_string (JArr xs) =
     join_commas (map (\<lambda>x. if x = JUndefined \<or> x = JNull then [] else to_string x) xs)"
| "to_string (JObj kvs) = ''[object Object]''"

subsection \<open>Reading a document\<close>

text \<open>Property access \<open>o.k\<close> and indexing \<open>a[i]\<close>, both \<open>undefined\<close> where nothing is stored.\<close>

fun jsget :: "string \<Rightarrow> jsval \<Rightarrow> jsval" where
  "jsget k (JObj kvs) = (case map_of kvs k of Some v \<Rightarrow> v | None \<Rightarrow> JUndefined)"
| "jsget k v = JUndefined"

fun jsidx :: "nat \<Rightarrow> jsval \<Rightarrow> jsval" where
  "jsidx i (JArr xs) = (if i < length xs then xs ! i else JUndefined)"
| "jsidx i v = JUndefined"

fun elements :: "jsval \<Rightarrow> jsval list" where
  "elements (JArr xs) = xs"
| "elements v = []"

section \<open>Source text beyond ASCII\<close>

text \<open>The emoji that the handlers write into the card and the log, as UTF-8 bytes.\<close>

definition emoji_fire :: string where
  "emoji_fire = [CHR 0xF0, CHR 0x9F, CHR 0x94, CHR 0xA5]"

definition emoji_warning :: string where
  "emoji_warning = [CHR 0xE2, CHR 0x9A, CHR 0xA0, CHR 0xEF, CHR 0xB8, CHR 0x8F]"

definition emoji_collision :: string where
  "emoji_collision = [CHR 0xF0, CHR 0x9F, CHR 0x92, CHR 0xA5]"

definition emoji_chart :: string where
  "emoji_chart = [CHR 0xF0, CHR 0x9F, CHR 0x93, CHR 0x8A]"

definition emoji_phone :: string where
  "emoji_phone = [CHR 0xF0, CHR 0x9F, CHR 0x93, CHR 0xB1]"

definition emoji_label :: string where
  "emoji_label = [CHR 0xF0, CHR 0x9F, CHR 0x8F, CHR 0xB7, CHR 0xEF, CHR 0xB8, CHR 0x8F]"

definition emoji_id :: string where
  "emoji_id = [CHR 0xF0, CHR 0x9F, CHR 0x86, CHR 0x94]"

definition emoji_package :: string where
  "emoji_package = [CHR 0xF0, CHR 0x9F, CHR 0x93, CHR 0xA6]"

definition emoji_clock :: string where
  "emoji_clock = [CHR 0xF0, CHR 0x9F, CHR 0x95, CHR 0x90]"

definition emoji_magnifier :: string where
  "emoji_magnifier = [CHR 0xF0, CHR 0x9F, CHR 0x94, CHR 0x8D]"

definition emoji_siren :: string where
  "emoji_siren = [CHR 0xF0, CHR 0x9F, CHR 0x9A, CHR 0xA8]"

definition emoji_check :: string where
  "emoji_check = [CHR 0xE2, CHR 0x9C, CHR 0x85]"

definition emoji_cross :: string where
  "emoji_cross = [CHR 0xE2, CHR 0x9D, CHR 0x8C]"

section \<open>The alert event\<close>

text \<open>
  \<open>event.appId\<close> and \<open>event.data.payload\<close> with the fields the handlers destructure.
  The event and its \<open>issue\<close> object are supplied by the alerting platform and always
  exist; each of their properties may be missing, which reads as \<open>JUndefined\<close>.
\<close>

record crash_issue =
  issue_id :: jsval
  issue_title :: jsval
  issue_subtitle :: jsval
  issue_appVersion :: jsval

record alert_payload =
  issue :: crash_issue
  createTime :: jsval
  crashCount :: jsval
  crashPercentage :: jsval
  firstVersion :: jsval

record alert_event =
  appId :: jsval
  payload :: alert_payload

section \<open>The platform\<close>

text \<open>
  What the handlers take from their surroundings: the \<open>Date\<close> constructor applied to a
  value, the wall clock, the locale's formatting of a date, the webhook secret, and the
  network's answer to a request.

  A \<open>Date\<close> object holds a time value, a count of milliseconds, or is invalid. The one
  built without an argument holds the clock's reading and is always valid.

  \<open>toLocaleString\<close> prints an invalid date as \<open>Invalid Date\<close>. A valid date is printed
  from the parts that the locale and the time zone make of its time value: literal text
  and numeric fields. Called without options, the formatter is asked for year, month,
  day, hour, minute and second as numbers, so at least one numeric field is among the
  parts; it is kept apart as \<open>first_number\<close>, with the text before it and the parts
  after it. The fields are written in ASCII digits.
\<close>

record http_request =
  url :: string
  body :: jsval
  headers :: "(string \<times> string) list"

datatype net_result = NetworkError string | HttpResponse nat jsval

datatype jsdate = InvalidDate | TimeValue int

datatype date_part = Literal string | Numeric nat

record formatted_date =
  leading :: string
  first_number :: nat
  rest :: "date_part list"

record platform =
  newDate :: "jsval \<Rightarrow> jsdate"
  clock :: int
  formatToParts :: "int \<Rightarrow> formatted_date"
  TEAMS_WEBHOOK_URL :: string
  network :: "http_request \<Rightarrow> net_result"

text \<open>\<open>new Date()\<close>\<close>

definition newDateNow :: "platform \<Rightarrow> jsdate" where
  "newDateNow p = TimeValue (clock p)"

fun part_text :: "date_part \<Rightarrow> string" where
  "part_text (Literal s) = s"
| "part_text (Numeric n) = digits_of n"

definition date_text :: "formatted_date \<Rightarrow> string" where
  "date_text f = leading f @ digits_of (first_number f) @ concat (map part_text (rest f))"

text \<open>\<open>d.toLocaleString()\<close>\<close>

definition toLocaleString :: "platform \<Rightarrow> jsdate \<Rightarrow> string" where
  "toLocaleString p d =
     (case d of InvalidDate \<Rightarrow> ''Invalid Date'' | TimeValue t \<Rightarrow> date_text (formatToParts p t))"

section \<open>Card builder (part\_000)\<close>

record card_args =
  emoji :: jsval
  title :: jsval
  subtitle :: jsval
  issueTitle :: jsval
  issueSubtitle :: jsval
  facts :: jsval
  consoleLink :: jsval
  accentColor :: jsval

definition buildTeamsCard :: "card_args \<Rightarrow> jsval" where
  "buildTeamsCard a =
     JObj [
       (''type'', JStr ''message''),
       (''attachments'', JArr [
         JObj [
           (''contentType'', JStr ''application/vnd.microsoft.card.adaptive''),
           (''content'', JObj [
             (''$schema'', JStr ''http://adaptivecards.io/schemas/adaptive-card.json''),
             (''type'', JStr ''AdaptiveCard''),
             (''version'', JStr ''1.4''),
             (''body'', JArr (
               [ JObj [
                   (''type'', JStr ''ColumnSet''),
                   (''columns'', JArr [
                     JObj [
                       (''type'', JStr ''Column''),
                       (''width'', JStr ''auto''),
                       (''items'', JArr [
                         JObj [(''type'', JStr ''TextBlock''), (''text'', emoji a),
                               (''size'', JStr ''ExtraLarge'')]])],
                     JObj [
                       (''type'', JStr ''Column''),
                       (''width'', JStr ''stretch''),
                       (''items'', JArr [
                         JObj [(''type'', JStr ''TextBlock''), (''text'', title a),
                               (''weight'', JStr ''Bolder''), (''size'', JStr ''Large''),
                               (''color'', accentColor a)],
                         JObj [(''type'', JStr ''TextBlock''), (''text'', subtitle a),
                               (''spacing'', JStr ''None''), (''isSubtle'', JBool True)]])]])],
                 JObj [
                   (''type'', JStr ''TextBlock''),
                   (''text'', js_or (issueTitle a) (JStr ''Unknown issue'')),
                   (''weight'', JStr ''Bolder''),
                   (''size'', JStr ''Medium''),
                   (''wrap'', JBool True),
                   (''spacing'', JStr ''Medium'')] ]
               @ (if truthy (issueSubtitle a)
                  then [ JObj [
                           (''type'', JStr ''TextBlock''),
                           (''text'', issueSubtitle a),
                           (''isSubtle'', JBool True),
                           (''wrap'', JBool True),
                           (''spacing'', JStr ''None'')] ]
                  else [])
               @ [ JObj [(''type'', JStr ''ColumnSet''), (''separator'', JBool True),
                         (''spacing'', JStr ''Medium''), (''columns'', JArr [])],
                   JObj [(''type'', JStr ''FactSet''), (''facts'', facts a)] ])),
             (''actions'', JArr [
               JObj [
                 (''type'', JStr ''Action.OpenUrl''),
                 (''title'', JStr (emoji_magnifier @ '' View in Firebase Console'')),
                 (''url'', consoleLink a)]])])]])]"

section \<open>Field normalisation\<close>

text \<open>The three handlers write the same template literal for the deep link.\<close>

definition firebaseConsoleLink :: "alert_event \<Rightarrow> jsval" where
  "firebaseConsoleLink ev =
     JStr (''https://console.firebase.google.com/project/_/crashlytics/app/''
           @ to_string (appId ev) @ ''/issues/'' @ to_string (issue_id (issue (payload ev))))"

text \<open>
  \<open>createTime ? new Date(createTime).toLocaleString() : new Date().toLocaleString()\<close>
\<close>

definition formatted_createTime :: "platform \<Rightarrow> jsval \<Rightarrow> jsval" where
  "formatted_createTime p ct =
     (if truthy ct then JStr (toLocaleString p (newDate p ct))
      else JStr (toLocaleString p (newDateNow p)))"

text \<open>One entry \<open>{ title: t, value: v }\<close> of a facts array.\<close>

definition fact :: "string \<Rightarrow> jsval \<Rightarrow> jsval" where
  "fact t v = JObj [(''title'', JStr t), (''value'', v)]"

subsection \<open>Velocity handler of part\_000\<close>

definition velocityFacts :: "platform \<Rightarrow> alert_event \<Rightarrow> jsval" where
  "velocityFacts p ev =
     JArr [
       fact (emoji_collision @ '' Crash Count'')
         (if truthy (crashCount (payload ev)) then JStr (to_string (crashCount (payload ev)))
          else JStr ''N/A''),
       fact (emoji_chart @ '' Sessions Affected'')
         (if truthy (crashPercentage (payload ev))
          then JStr (to_string (crashPercentage (payload ev)) @ ''%'')
          else JStr ''N/A''),
       fact (emoji_phone @ '' App Version'')
         (js_or (issue_appVersion (issue (payload ev))) (JStr ''N/A'')),
       fact (emoji_label @ '' First Seen In'') (js_or (firstVersion (payload ev)) (JStr ''N/A'')),
       fact (emoji_id @ '' Issue ID'') (js_or (issue_id (issue (payload ev))) (JStr ''N/A'')),
       fact (emoji_package @ '' App ID'') (js_or (appId ev) (JStr ''N/A'')),
       fact (emoji_clock @ '' Alert Time'') (formatted_createTime p (createTime (payload ev)))]"

definition velocityTeamsMessage :: "platform \<Rightarrow> alert_event \<Rightarrow> jsval" where
  "velocityTeamsMessage p ev =
     buildTeamsCard \<lparr>
       emoji = JStr emoji_fire,
       title = JStr ''Crashlytics Velocity Alert'',
       subtitle = JStr ''A crash issue is rapidly impacting users'',
       issueTitle = issue_title (issue (payload ev)),
       issueSubtitle = issue_subtitle (issue (payload ev)),
       facts = velocityFacts p ev,
       consoleLink = firebaseConsoleLink ev,
       accentColor = JStr ''Attention'' \<rparr>"

subsection \<open>New non-fatal issue handler of part\_000\<close>

definition nonFatalFacts :: "platform \<Rightarrow> alert_event \<Rightarrow> jsval" where
  "nonFatalFacts p ev =
     JArr [
       fact (emoji_id @ '' Issue ID'') (js_or (issue_id (issue (payload ev))) (JStr ''N/A'')),
       fact (emoji_phone @ '' App Version'')
         (js_or (issue_appVersion (issue (payload ev))) (JStr ''N/A'')),
       fact (emoji_package @ '' App ID'') (js_or (appId ev) (JStr ''N/A'')),
       fact (emoji_clock @ '' Detected At'') (formatted_createTime p (createTime (payload ev)))]"

definition nonFatalTeamsMessage :: "platform \<Rightarrow> alert_event \<Rightarrow> jsval" where
  "nonFatalTeamsMessage p ev =
     buildTeamsCard \<lparr>
       emoji = JStr emoji_warning,
       title = JStr ''New Non-Fatal Issue Detected'',
       subtitle = JStr ''Crashlytics found a new non-fatal error in your app'',
       issueTitle = issue_title (issue (payload ev)),
       issueSubtitle = issue_subtitle (issue (payload ev)),
       facts = nonFatalFacts p ev,
       consoleLink = firebaseConsoleLink ev,
       accentColor = JStr ''Warning'' \<rparr>"

subsection \<open>Standalone velocity handler (crashlytics\_velocity\_alert\_teams.js)\<close>

text \<open>This handler writes the whole card inline, without the shared builder.\<close>

definition standaloneTeamsMessage :: "platform \<Rightarrow> alert_event \<Rightarrow> jsval" where
  "standaloneTeamsMessage p ev =
     JObj [
       (''type'', JStr ''message''),
       (''attachments'', JArr [
         JObj [
           (''contentType'', JStr ''application/vnd.microsoft.card.adaptive''),
           (''content'', JObj [
             (''$schema'', JStr ''http://adaptivecards.io/schemas/adaptive-card.json''),
             (''type'', JStr ''AdaptiveCard''),
             (''version'', JStr ''1.4''),
             (''body'', JArr (
               [ JObj [
                   (''type'', JStr ''ColumnSet''),
                   (''columns'', JArr [
                     JObj [
                       (''type'', JStr ''Column''),
                       (''width'', JStr ''auto''),
                       (''items'', JArr [
                         JObj [(''type'', JStr ''TextBlock''), (''text'', JStr emoji_fire),
                               (''size'', JStr ''ExtraLarge'')]])],
                     JObj [
                       (''type'', JStr ''Column''),
                       (''width'', JStr ''stretch''),
                       (''items'', JArr [
                         JObj [(''type'', JStr ''TextBlock''),
                               (''text'', JStr ''Crashlytics Velocity Alert''),
                               (''weight'', JStr ''Bolder''), (''size'', JStr ''Large''),
                               (''color'', JStr ''Attention'')],
                         JObj [(''type'', JStr ''TextBlock''),
                               (''text'', JStr ''A crash issue is rapidly impacting users''),
                               (''spacing'', JStr ''None''), (''isSubtle'', JBool True)]])]])],
                 JObj [
                   (''type'', JStr ''TextBlock''),
                   (''text'', js_or (issue_title (issue (payload ev))) (JStr ''Unknown issue'')),
                   (''weight'', JStr ''Bolder''),
                   (''size'', JStr ''Medium''),
                   (''wrap'', JBool True),
                   (''spacing'', JStr ''Medium'')] ]
               @ (if truthy (issue_subtitle (issue (payload ev)))
                  then [ JObj [
                           (''type'', JStr ''TextBlock''),
                           (''text'', issue_subtitle (issue (payload ev))),
                           (''isSubtle'', JBool True),
                           (''wrap'', JBool True),
                           (''spacing'', JStr ''None'')] ]
                  else [])
               @ [ JObj [(''type'', JStr ''ColumnSet''), (''separator'', JBool True),
                         (''spacing'', JStr ''Medium''), (''columns'', JArr [])],
                   JObj [
                     (''type'', JStr ''FactSet''),
                     (''facts'', JArr [
                       JObj [(''title'', JStr (emoji_collision @ '' Crash Count'')),
                             (''value'',
                                if truthy (crashCount (payload ev))
                                then JStr (to_string (crashCount (payload ev)))
                                else JStr ''N/A'')],
                       JObj [(''title'', JStr (emoji_chart @ '' Sessions Affected'')),
                             (''value'',
                                if truthy (crashPercentage (payload ev))
                                then JStr (to_string (crashPercentage (payload ev)) @ ''%'')
                                else JStr ''N/A'')],
                       JObj [(''title'', JStr (emoji_phone @ '' App Version'')),
                             (''value'',
                                js_or (issue_appVersion (issue (payload ev))) (JStr ''N/A''))],
                       JObj [(''title'', JStr (emoji_label @ '' First Seen In'')),
                             (''value'', js_or (firstVersion (payload ev)) (JStr ''N/A''))],
                       JObj [(''title'', JStr (emoji_id @ '' Issue ID'')),
                             (''value'', js_or (issue_id (issue (payload ev))) (JStr ''N/A''))],
                       JObj [(''title'', JStr (emoji_package @ '' App ID'')),
                             (''value'', js_or (appId ev) (JStr ''N/A''))],
                       JObj [(''title'', JStr (emoji_clock @ '' Alert Time'')),
                             (''value'',
                                if truthy (createTime (payload ev))
                                then JStr (toLocaleString p (newDate p (createTime (payload ev))))
                                else JStr (toLocaleString p (newDateNow p)))]])] ])),
             (''actions'', JArr [
               JObj [
                 (''type'', JStr ''Action.OpenUrl''),
                 (''title'', JStr (emoji_magnifier @ '' View in Firebase Console'')),
                 (''url'', firebaseConsoleLink ev),
                 (''style'', JStr ''destructive'')]])])]])]"

section \<open>Delivery\<close>

text \<open>
  What an invocation leaves behind: the requests handed to the HTTP client and the lines
  written to the logger, both in order.
\<close>

datatype log_arg = Payload alert_payload | Value jsval

datatype log_entry = LogInfo string log_arg | LogError string log_arg

record world =
  sent :: "http_request list"
  logged :: "log_entry list"

record http_response =
  status :: nat
  data :: jsval

text \<open>The error the HTTP client rejects with: \<open>error.response\<close> (if any) and \<open>error.message\<close>.\<close>

record axios_error =
  response :: "http_response option"
  message :: string

text \<open>
  \<open>axios.post\<close> with the client's default \<open>validateStatus\<close>: the promise resolves for a
  status from 200 to 299; it rejects, with the response attached, for any other status,
  and with no response when the transport fails.
\<close>

definition validateStatus :: "nat \<Rightarrow> bool" where
  "validateStatus st = (200 \<le> st \<and> st < 300)"

definition axios_post :: "(http_request \<Rightarrow> net_result) \<Rightarrow> http_request \<Rightarrow> axios_error + http_response" where
  "axios_post net req =
     (case net req of
        NetworkError m \<Rightarrow> Inl \<lparr> response = None, message = m \<rparr>
      | HttpResponse st d \<Rightarrow>
          if validateStatus st then Inr \<lparr> status = st, data = d \<rparr>
          else Inl \<lparr> response = Some \<lparr> status = st, data = d \<rparr>,
                     message = ''Request failed with status code '' @ digits_of st \<rparr>)"

text \<open>\<open>error.response?.data || error.message\<close>\<close>

definition error_detail :: "axios_error \<Rightarrow> jsval" where
  "error_detail err =
     js_or (case response err of None \<Rightarrow> JUndefined | Some r \<Rightarrow> data r) (JStr (message err))"

definition json_headers :: "(string \<times> string) list" where
  "json_headers = [(''Content-Type'', ''application/json'')]"

text \<open>The shared helper of part\_000. \<open>Inl\<close> is the error thrown to the caller.\<close>

definition sendToTeams :: "platform \<Rightarrow> jsval \<Rightarrow> world \<Rightarrow> (axios_error + unit) \<times> world" where
  "sendToTeams p msg w =
     (let req = \<lparr> url = TEAMS_WEBHOOK_URL p, body = msg, headers = json_headers \<rparr>;
          w1 = w \<lparr> sent := sent w @ [req] \<rparr>
      in case axios_post (network p) req of
           Inr resp \<Rightarrow>
             (Inr (),
              w1 \<lparr> logged := logged w1 @
                [LogInfo (emoji_check @ '' Teams notification sent. Status:'')
                   (Value (JNum (Dec (int (status resp)) 0)))] \<rparr>)
         | Inl err \<Rightarrow>
             (Inl err,
              w1 \<lparr> logged := logged w1 @
                [LogError (emoji_cross @ '' Failed to send Teams notification:'')
                   (Value (error_detail err))] \<rparr>))"

subsection \<open>The three exported handlers\<close>

definition sendVelocityAlertToTeams :: "platform \<Rightarrow> alert_event \<Rightarrow> world \<Rightarrow> (axios_error + unit) \<times> world" where
  "sendVelocityAlertToTeams p ev w =
     (let w1 = w \<lparr> logged := logged w @
                 [LogInfo (emoji_siren @ '' Crashlytics velocity alert received'')
                    (Payload (payload ev))] \<rparr>
      in sendToTeams p (velocityTeamsMessage p ev) w1)"

definition sendNonFatalIssueToTeams :: "platform \<Rightarrow> alert_event \<Rightarrow> world \<Rightarrow> (axios_error + unit) \<times> world" where
  "sendNonFatalIssueToTeams p ev w =
     (let w1 = w \<lparr> logged := logged w @
                 [LogInfo (emoji_warning @ '' Crashlytics new non-fatal issue received'')
                    (Payload (payload ev))] \<rparr>
      in sendToTeams p (nonFatalTeamsMessage p ev) w1)"

text \<open>The standalone handler posts inside its own try/catch.\<close>

definition standaloneSendVelocityAlertToTeams :: "platform \<Rightarrow> alert_event \<Rightarrow> world \<Rightarrow> (axios_error + unit) \<times> world" where
  "standaloneSendVelocityAlertToTeams p ev w =
     (let w1 = w \<lparr> logged := logged w @
                 [LogInfo (emoji_siren @ '' Crashlytics velocity alert received'')
                    (Payload (payload ev))] \<rparr>;
          req = \<lparr> url = TEAMS_WEBHOOK_URL p, body = standaloneTeamsMessage p ev,
                  headers = json_headers \<rparr>;
          w2 = w1 \<lparr> sent := sent w1 @ [req] \<rparr>
      in case axios_post (network p) req of
           Inr resp \<Rightarrow>
             (Inr (),
              w2 \<lparr> logged := logged w2 @
                [LogInfo (emoji_check @ '' Teams notification sent successfully. Status:'')
                   (Value (JNum (Dec (int (status resp)) 0)))] \<rparr>)
         | Inl err \<Rightarrow>
             (Inl err,
              w2 \<lparr> logged := logged w2 @
                [LogError (emoji_cross @ '' Failed to send Teams notification:'')
                   (Value (error_detail err))] \<rparr>))"

section \<open>The builder's body as a syntax tree\<close>

text \<open>
  To say what the builder reads, its body is also kept as the expression it is in the
  source. The expressions are those the repository writes: literals, names of parameters
  and local constants, \<open>a || b\<close>, \<open>c ? a : b\<close>, object literals, array literals whose
  items may be spread, and the three expressions that read the platform:
  \<open>new Date().toLocaleString()\<close>, \<open>new Date(e).toLocaleString()\<close> and
  \<open>TEAMS_WEBHOOK_URL.value()\<close>. An item \<open>(True, e)\<close> of an array literal is the spread
  \<open>...e\<close>.
\<close>

datatype expr =
    ELit jsval
  | EVar string
  | EOr expr expr
  | ECond expr expr expr
  | EObj "(string \<times> expr) list"
  | EArr "(bool \<times> expr) list"
  | ENowString
  | EDateString expr
  | ESecret

fun eval_expr :: "platform \<Rightarrow> (string \<Rightarrow> jsval) \<Rightarrow> expr \<Rightarrow> jsval" where
  "eval_expr p env (ELit v) = v"
| "eval_expr p env (EVar x) = env x"
| "eval_expr p env (EOr a b) = js_or (eval_expr p env a) (eval_expr p env b)"
| "eval_expr p env (ECond c a b) =
     (if truthy (eval_expr p env c) then eval_expr p env a else eval_expr p env b)"
| "eval_expr p env (EObj kes) = JObj (map (\<lambda>(k, e). (k, eval_expr p env e)) kes)"
| "eval_expr p env (EArr items) =
     JArr (concat (map (\<lambda>(spread, e).
             if spread then elements (eval_expr p env e) else [eval_expr p env e]) items))"
| "eval_expr p env ENowString = JStr (toLocaleString p (newDateNow p))"
| "eval_expr p env (EDateString e) = JStr (toLocaleString p (newDate p (eval_expr p env e)))"
| "eval_expr p env ESecret = JStr (TEAMS_WEBHOOK_URL p)"

text \<open>Whether an expression contains one that reads the platform.\<close>

fun reads_platform :: "expr \<Rightarrow> bool" where
  "reads_platform (ELit v) = False"
| "reads_platform (EVar x) = False"
| "reads_platform (EOr a b) = (reads_platform a \<or> reads_platform b)"
| "reads_platform (ECond c a b) = (reads_platform c \<or> reads_platform a \<or> reads_platform b)"
| "reads_platform (EObj kes) = list_ex (\<lambda>(k, e). reads_platform e) kes"
| "reads_platform (EArr items) = list_ex (\<lambda>(spread, e). reads_platform e) items"
| "reads_platform ENowString = True"
| "reads_platform (EDateString e) = True"
| "reads_platform ESecret = True"

text \<open>The parameters that the builder destructures from its argument.\<close>

definition parameters :: "card_args \<Rightarrow> string \<Rightarrow> jsval" where
  "parameters a x =
     (if x = ''emoji'' then emoji a
      else if x = ''title'' then title a
      else if x = ''subtitle'' then subtitle a
      else if x = ''issueTitle'' then issueTitle a
      else if x = ''issueSubtitle'' then issueSubtitle a
      else if x = ''facts'' then facts a
      else if x = ''consoleLink'' then consoleLink a
      else if x = ''accentColor'' then accentColor a
      else JUndefined)"

text \<open>The expression that \<open>buildTeamsCard\<close> returns (part\_000).\<close>

definition buildTeamsCard_body :: expr where
  "buildTeamsCard_body =
     EObj [
       (''type'', ELit (JStr ''message'')),
       (''attachments'', EArr [
         (False, EObj [
           (''contentType'', ELit (JStr ''application/vnd.microsoft.card.adaptive'')),
           (''content'', EObj [
             (''$schema'', ELit (JStr ''http://adaptivecards.io/schemas/adaptive-card.json'')),
             (''type'', ELit (JStr ''AdaptiveCard'')),
             (''version'', ELit (JStr ''1.4'')),
             (''body'', EArr [
               (False, EObj [
                 (''type'', ELit (JStr ''ColumnSet'')),
                 (''columns'', EArr [
                   (False, EObj [
                     (''type'', ELit (JStr ''Column'')),
                     (''width'', ELit (JStr ''auto'')),
                     (''items'', EArr [
                       (False, EObj [
                         (''type'', ELit (JStr ''TextBlock'')),
                         (''text'', EVar ''emoji''),
                         (''size'', ELit (JStr ''ExtraLarge''))])])]),
                   (False, EObj [
                     (''type'', ELit (JStr ''Column'')),
                     (''width'', ELit (JStr ''stretch'')),
                     (''items'', EArr [
                       (False, EObj [
                         (''type'', ELit (JStr ''TextBlock'')),
                         (''text'', EVar ''title''),
                         (''weight'', ELit (JStr ''Bolder'')),
                         (''size'', ELit (JStr ''Large'')),
                         (''color'', EVar ''accentColor'')]),
                       (False, EObj [
                         (''type'', ELit (JStr ''TextBlock'')),
                         (''text'', EVar ''subtitle''),
                         (''spacing'', ELit (JStr ''None'')),
                         (''isSubtle'', ELit (JBool True))])])])])]),
               (False, EObj [
                 (''type'', ELit (JStr ''TextBlock'')),
                 (''text'', EOr (EVar ''issueTitle'') (ELit (JStr ''Unknown issue''))),
                 (''weight'', ELit (JStr ''Bolder'')),
                 (''size'', ELit (JStr ''Medium'')),
                 (''wrap'', ELit (JBool True)),
                 (''spacing'', ELit (JStr ''Medium''))]),
               (True, ECond (EVar ''issueSubtitle'')
                  (EArr [
                    (False, EObj [
                      (''type'', ELit (JStr ''TextBlock'')),
                      (''text'', EVar ''issueSubtitle''),
                      (''isSubtle'', ELit (JBool True)),
                      (''wrap'', ELit (JBool True)),
                      (''spacing'', ELit (JStr ''None''))])])
                  (EArr [])),
               (False, EObj [
                 (''type'', ELit (JStr ''ColumnSet'')),
                 (''separator'', ELit (JBool True)),
                 (''spacing'', ELit (JStr ''Medium'')),
                 (''columns'', EArr [])]),
               (False, EObj [
                 (''type'', ELit (JStr ''FactSet'')),
                 (''facts'', EVar ''facts'')])]),
             (''actions'', EArr [
               (False, EObj [
                 (''type'', ELit (JStr ''Action.OpenUrl'')),
                 (''title'', ELit (JStr (emoji_magnifier @ '' View in Firebase Console''))),
                 (''url'', EVar ''consoleLink'')])])])])])]"

text \<open>
  The expression that the handlers write for the time fact, before they call the builder:
  \<open>createTime ? new Date(createTime).toLocaleString() : new Date().toLocaleString()\<close>
\<close>

definition createTime_fallback :: expr where
  "createTime_fallback = ECond (EVar ''createTime'') (EDateString (EVar ''createTime'')) ENowString"

section \<open>Reading the built card\<close>

definition card_content :: "jsval \<Rightarrow> jsval" where
  "card_content d = jsget ''content'' (jsidx 0 (jsget ''attachments'' d))"

definition card_body :: "jsval \<Rightarrow> jsval list" where
  "card_body d = elements (jsget ''body'' (card_content d))"

definition card_actions :: "jsval \<Rightarrow> jsval list" where
  "card_actions d = elements (jsget ''actions'' (card_content d))"

definition block_types :: "jsval \<Rightarrow> jsval list" where
  "block_types d = map (jsget ''type'') (card_body d)"

text \<open>The entries of the FactSet blocks of the body, in order.\<close>

definition card_facts :: "jsval \<Rightarrow> jsval list" where
  "card_facts d =
     concat (map (\<lambda>b. elements (jsget ''facts'' b))
                 (filter (\<lambda>b. jsget ''type'' b = JStr ''FactSet'') (card_body d)))"

definition fact_titles :: "jsval \<Rightarrow> jsval list" where
  "fact_titles d = map (jsget ''title'') (card_facts d)"

definition fact_values :: "jsval \<Rightarrow> jsval list" where
  "fact_values d = map (jsget ''value'') (card_facts d)"

text \<open>
  The subtle text blocks standing directly in the body. The sub-headline is subtle too,
  but it stands inside the header's column, so only the issue subtitle can be found here.
\<close>

definition subtitle_blocks :: "jsval \<Rightarrow> jsval list" where
  "subtitle_blocks d =
     filter (\<lambda>b. jsget ''type'' b = JStr ''TextBlock'' \<and> jsget ''isSubtle'' b = JBool True)
            (card_body d)"

text \<open>The card with the \<open>style\<close> property of every action button removed.\<close>

fun delete_key :: "string \<Rightarrow> jsval \<Rightarrow> jsval" where
  "delete_key k (JObj kvs) = JObj (filter (\<lambda>kv. fst kv \<noteq> k) kvs)"
| "delete_key k v = v"

fun map_key :: "string \<Rightarrow> (jsval \<Rightarrow> jsval) \<Rightarrow> jsval \<Rightarrow> jsval" where
  "map_key k f (JObj kvs) = JObj (map (\<lambda>kv. if fst kv = k then (fst kv, f (snd kv)) else kv) kvs)"
| "map_key k f v = v"

fun map_elements :: "(jsval \<Rightarrow> jsval) \<Rightarrow> jsval \<Rightarrow> jsval" where
  "map_elements f (JArr xs) = JArr (map f xs)"
| "map_elements f v = v"

definition without_action_style :: "jsval \<Rightarrow> jsval" where
  "without_action_style d =
     map_key ''attachments''
       (map_elements (map_key ''content''
          (map_key ''actions'' (map_elements (delete_key ''style''))))) d"

section \<open>Field types of the data model\<close>

definition absent :: "jsval \<Rightarrow> bool" where
  "absent v = (v = JUndefined \<or> v = JNull)"

fun is_string :: "jsval \<Rightarrow> bool" where
  "is_string (JStr s) = True"
| "is_string v = False"

fun is_nonempty_string :: "jsval \<Rightarrow> bool" where
  "is_nonempty_string (JStr s) = (s \<noteq> [])"
| "is_nonempty_string v = False"

fun is_number :: "jsval \<Rightarrow> bool" where
  "is_number (JNum x) = True"
| "is_number v = False"

definition opt_string :: "jsval \<Rightarrow> bool" where
  "opt_string v = (absent v \<or> is_string v)"

definition opt_number :: "jsval \<Rightarrow> bool" where
  "opt_number v = (absent v \<or> is_number v)"

text \<open>
  The fields that feed a fact, typed as the data model types them: the two counters are
  numbers, the four others are strings, and each may be missing.
\<close>

definition typed_event :: "alert_event \<Rightarrow> bool" where
  "typed_event ev =
     (opt_number (crashCount (payload ev)) \<and>
      opt_number (crashPercentage (payload ev)) \<and>
      opt_string (issue_appVersion (issue (payload ev))) \<and>
      opt_string (firstVersion (payload ev)) \<and>
      opt_string (issue_id (issue (payload ev))) \<and>
      opt_string (appId ev))"

text \<open>
  How a source field \<open>f\<close> shows in its fact value \<open>v\<close>: the placeholder when the field is
  missing or otherwise falsy, else its string form followed by the suffix.
\<close>

definition rendered :: "jsval \<Rightarrow> string \<Rightarrow> jsval \<Rightarrow> bool" where
  "rendered f sfx v =
     ((absent f \<longrightarrow> v = JStr ''N/A'') \<and>
      (\<not> truthy f \<longrightarrow> v = JStr ''N/A'') \<and>
      (truthy f \<longrightarrow> v = JStr (to_string f @ sfx)))"

section \<open>Sample inputs\<close>

text \<open>
  A platform whose \<open>Date\<close> constructor reads a number as a count of milliseconds and
  nothing else, whose locale prints a date as that count, and whose webhook answers 200;
  the same platform with a webhook that answers 500, with a network that fails, and with
  a clock that reads one second more.
\<close>

fun ms_date :: "jsval \<Rightarrow> jsdate" where
  "ms_date (JNum (Dec m e)) = TimeValue (m div 10 ^ e)"
| "ms_date v = InvalidDate"

definition sample_platform :: platform where
  "sample_platform =
     \<lparr> newDate = ms_date,
       clock = 1762169040321,
       formatToParts = (\<lambda>t. \<lparr> leading = [], first_number = nat t, rest = [] \<rparr>),
       TEAMS_WEBHOOK_URL = ''https://teams.example/webhook'',
       network = (\<lambda>r. HttpResponse 200 (JNum (Dec 1 0))) \<rparr>"

definition failing_platform :: platform where
  "failing_platform = sample_platform \<lparr> network := (\<lambda>r. HttpResponse 500 (JStr ''boom'')) \<rparr>"

definition offline_platform :: platform where
  "offline_platform = sample_platform \<lparr> network := (\<lambda>r. NetworkError ''ECONNREFUSED'') \<rparr>"

definition later_platform :: platform where
  "later_platform = sample_platform \<lparr> clock := 1762169041321 \<rparr>"

text \<open>The full velocity payload of the specification's scenario.\<close>

definition sample_event :: alert_event where
  "sample_event =
     \<lparr> appId = JStr ''app1'',
       payload = \<lparr>
         issue = \<lparr> issue_id = JStr ''I1'', issue_title = JStr ''NPE'',
                   issue_subtitle = JStr ''at Foo.bar'', issue_appVersion = JStr ''2.1.0'' \<rparr>,
         createTime = JNum (Dec 1700000000123 0),
         crashCount = JNum (Dec 42 0),
         crashPercentage = JNum (Dec 35 1),
         firstVersion = JStr ''2.0.9'' \<rparr> \<rparr>"

text \<open>The same payload reporting a crash count of zero.\<close>

definition zero_count_event :: alert_event where
  "zero_count_event =
     sample_event \<lparr> payload := (payload sample_event) \<lparr> crashCount := JNum (Dec 0 0) \<rparr> \<rparr>"

text \<open>The same payload stamped with the epoch, millisecond zero.\<close>

definition epoch_event :: alert_event where
  "epoch_event =
     sample_event \<lparr> payload := (payload sample_event) \<lparr> createTime := JNum (Dec 0 0) \<rparr> \<rparr>"

text \<open>A payload that carries only the issue's identifier and title.\<close>

definition bare_event :: alert_event where
  "bare_event =
     \<lparr> appId = JUndefined,
       payload = \<lparr>
         issue = \<lparr> issue_id = JStr ''I2'', issue_title = JUndefined,
                   issue_subtitle = JUndefined, issue_appVersion = JUndefined \<rparr>,
         createTime = JUndefined,
         crashCount = JUndefined,
         crashPercentage = JUndefined,
         firstVersion = JUndefined \<rparr> \<rparr>"

definition sample_args :: card_args where
  "sample_args =
     \<lparr> emoji = JStr emoji_fire,
       title = JStr ''Crashlytics Velocity Alert'',
       subtitle = JStr ''A crash issue is rapidly impacting users'',
       issueTitle = JStr ''NPE'',
       issueSubtitle = JStr ''at Foo.bar'',
       facts = JArr [fact ''Issue ID'' (JStr ''I1'')],
       consoleLink = JStr ''https://console.firebase.google.com/'',
       accentColor = JStr ''Attention'' \<rparr>"

text \<open>The same arguments with no issue title and no issue subtitle.\<close>

definition untitled_args :: card_args where
  "untitled_args = sample_args \<lparr> issueTitle := JUndefined, issueSubtitle := JUndefined \<rparr>"

definition empty_world :: world where
  "empty_world = \<lparr> sent = [], logged = [] \<rparr>"

section \<open>Properties of a card, as the specification words them\<close>

text \<open>The fixed wire envelope of a message.\<close>

definition wire_envelope :: "jsval \<Rightarrow> bool" where
  "wire_envelope d =
     (jsget ''type'' d = JStr ''message'' \<and>
      map (jsget ''contentType'') (elements (jsget ''attachments'' d)) =
        [JStr ''application/vnd.microsoft.card.adaptive''] \<and>
      jsget ''type'' (card_content d) = JStr ''AdaptiveCard'' \<and>
      jsget ''version'' (card_content d) = JStr ''1.4'')"

text \<open>The seven fact values of a velocity card against the six source fields.\<close>

definition velocity_values_rendered :: "alert_event \<Rightarrow> jsval list \<Rightarrow> bool" where
  "velocity_values_rendered ev vs =
     (length vs = 7 \<and> list_all is_string vs \<and>
      rendered (crashCount (payload ev)) [] (vs ! 0) \<and>
      rendered (crashPercentage (payload ev)) ''%'' (vs ! 1) \<and>
      rendered (issue_appVersion (issue (payload ev))) [] (vs ! 2) \<and>
      rendered (firstVersion (payload ev)) [] (vs ! 3) \<and>
      rendered (issue_id (issue (payload ev))) [] (vs ! 4) \<and>
      rendered (appId ev) [] (vs ! 5))"

text \<open>The four fact values of a non-fatal card against the three source fields.\<close>

definition nonfatal_values_rendered :: "alert_event \<Rightarrow> jsval list \<Rightarrow> bool" where
  "nonfatal_values_rendered ev vs =
     (length vs = 4 \<and> list_all is_string vs \<and>
      rendered (issue_id (issue (payload ev))) [] (vs ! 0) \<and>
      rendered (issue_appVersion (issue (payload ev))) [] (vs ! 1) \<and>
      rendered (appId ev) [] (vs ! 2))"

text \<open>
  The subtitle block against the subtitle \<open>sub\<close>: it stands in the body exactly when
  \<open>sub\<close> is a non-empty string, then as the third of five blocks and with \<open>sub\<close> as its
  text; otherwise the body has the four other blocks only.
\<close>

definition subtitle_shown :: "jsval \<Rightarrow> jsval \<Rightarrow> bool" where
  "subtitle_shown sub d =
     (((subtitle_blocks d \<noteq> []) = is_nonempty_string sub) \<and>
      (is_nonempty_string sub \<longrightarrow>
         block_types d = [JStr ''ColumnSet'', JStr ''TextBlock'', JStr ''TextBlock'',
                          JStr ''ColumnSet'', JStr ''FactSet''] \<and>
         subtitle_blocks d = [card_body d ! 2] \<and>
         jsget ''text'' (card_body d ! 2) = sub) \<and>
      (\<not> is_nonempty_string sub \<longrightarrow>
         block_types d = [JStr ''ColumnSet'', JStr ''TextBlock'',
                          JStr ''ColumnSet'', JStr ''FactSet'']))"


text \<open>
  The time fact \<open>v\<close> against \<open>createTime\<close>: the formatting of that time when it is truthy,
  the formatting of the clock's reading when it is missing or otherwise falsy, and then
  neither empty nor the placeholder.
\<close>

definition time_rendered :: "platform \<Rightarrow> jsval \<Rightarrow> jsval \<Rightarrow> bool" where
  "time_rendered p ct v =
     ((truthy ct \<longrightarrow> v = JStr (toLocaleString p (newDate p ct))) \<and>
      (\<not> truthy ct \<longrightarrow>
         v = JStr (toLocaleString p (newDateNow p)) \<and> v \<noteq> JStr [] \<and> v \<noteq> JStr ''N/A'') \<and>
      (absent ct \<longrightarrow>
         v = JStr (toLocaleString p (newDateNow p)) \<and> v \<noteq> JStr [] \<and> v \<noteq> JStr ''N/A''))"

text \<open>The request a handler posts for the message \<open>msg\<close>, and whether the webhook accepts it.\<close>

definition teams_request :: "platform \<Rightarrow> jsval \<Rightarrow> http_request" where
  "teams_request p msg = \<lparr> url = TEAMS_WEBHOOK_URL p, body = msg, headers = json_headers \<rparr>"

definition delivered :: "platform \<Rightarrow> jsval \<Rightarrow> bool" where
  "delivered p msg =
     (case network p (teams_request p msg) of
        HttpResponse st d \<Rightarrow> 200 \<le> st \<and> st < 300
      | NetworkError m \<Rightarrow> False)"

text \<open>What the catch block logs for an error: the response body when there is one, else the message.\<close>

definition body_or_message :: "axios_error \<Rightarrow> jsval" where
  "body_or_message err =
     (case response err of
        Some r \<Rightarrow> if truthy (data r) then data r else JStr (message err)
      | None \<Rightarrow> JStr (message err))"

text \<open>
  A delivery \<open>r\<close> from the world \<open>w\<close>, with the two log texts of the handler: it returns
  normally exactly when the webhook accepts the request; then the one new log line is the
  status; otherwise the error of the client is thrown on unchanged and the one new log
  line is its body or message.
\<close>

definition delivery_contract ::
  "platform \<Rightarrow> jsval \<Rightarrow> string \<Rightarrow> string \<Rightarrow> log_entry list \<Rightarrow> (axios_error + unit) \<times> world \<Rightarrow> bool" where
  "delivery_contract p msg ok_text fail_text before r =
     (((fst r = Inr ()) = delivered p msg) \<and>
      (\<forall>resp. axios_post (network p) (teams_request p msg) = Inr resp \<longrightarrow>
         delivered p msg \<and> fst r = Inr () \<and>
         logged (snd r) = before @ [LogInfo ok_text (Value (JNum (Dec (int (status resp)) 0)))]) \<and>
      (\<forall>err. axios_post (network p) (teams_request p msg) = Inl err \<longrightarrow>
         \<not> delivered p msg \<and> fst r = Inl err \<and>
         logged (snd r) = before @ [LogError fail_text (Value (body_or_message err))]))"

section \<open>Unfolding rules\<close>

lemmas read_defs = card_content_def card_body_def card_actions_def block_types_def
  card_facts_def fact_titles_def fact_values_def subtitle_blocks_def

lemmas build_defs = velocityTeamsMessage_def nonFatalTeamsMessage_def standaloneTeamsMessage_def
  buildTeamsCard_def velocityFacts_def nonFatalFacts_def fact_def

lemmas sample_defs = sample_platform_def failing_platform_def offline_platform_def
  later_platform_def
  sample_event_def zero_count_event_def epoch_event_def bare_event_def sample_args_def untitled_args_def
  empty_world_def

lemmas number_defs = positive_to_string_def digits_of.simps digit_char_def strip_zeros_def Let_def

lemmas date_defs = toLocaleString_def newDateNow_def date_text_def digits_of.simps digit_char_def

lemma fact_values_velocity:
  "fact_values (velocityTeamsMessage p ev) =
     [if truthy (crashCount (payload ev)) then JStr (to_string (crashCount (payload ev)))
      else JStr ''N/A'',
      if truthy (crashPercentage (payload ev))
      then JStr (to_string (crashPercentage (payload ev)) @ ''%'') else JStr ''N/A'',
      js_or (issue_appVersion (issue (payload ev))) (JStr ''N/A''),
      js_or (firstVersion (payload ev)) (JStr ''N/A''),
      js_or (issue_id (issue (payload ev))) (JStr ''N/A''),
      js_or (appId ev) (JStr ''N/A''),
      formatted_createTime p (createTime (payload ev))]"
  by (simp add: read_defs build_defs)

lemma fact_values_standalone:
  "fact_values (standaloneTeamsMessage p ev) = fact_values (velocityTeamsMessage p ev)"
  by (simp add: read_defs build_defs formatted_createTime_def)

lemma fact_values_nonFatal:
  "fact_values (nonFatalTeamsMessage p ev) =
     [js_or (issue_id (issue (payload ev))) (JStr ''N/A''),
      js_or (issue_appVersion (issue (payload ev))) (JStr ''N/A''),
      js_or (appId ev) (JStr ''N/A''),
      formatted_createTime p (createTime (payload ev))]"
  by (simp add: read_defs build_defs)

lemma rendered_or: "opt_string f \<Longrightarrow> rendered f [] (js_or f (JStr ''N/A''))"
  by (cases f) (auto simp: rendered_def js_or_def opt_string_def absent_def)

lemma rendered_cond:
  "rendered f sfx (if truthy f then JStr (to_string f @ sfx) else JStr ''N/A'')"
  by (auto simp: rendered_def absent_def)

lemma rendered_plain:
  "rendered f [] (if truthy f then JStr (to_string f) else JStr ''N/A'')"
  by (auto simp: rendered_def absent_def)

lemma is_string_or: "opt_string f \<Longrightarrow> is_string (js_or f (JStr s))"
  by (cases f) (auto simp: js_or_def opt_string_def absent_def)

lemma is_string_time: "is_string (formatted_createTime p ct)"
  by (simp add: formatted_createTime_def)

text \<open>
  Claim C1, as amended. For every event whose fact sources are typed as the data model
  types them, in the card of each of the three handlers every fact value is a string; a
  source field that is missing, or present but falsy (the number zero, NaN, the empty
  string), shows as the placeholder \<open>N/A\<close>; a truthy field shows as its string form,
  followed by \<open>%\<close> for the crash percentage.
\<close>
theorem fact_values_rendered:
  assumes "typed_event ev"
  shows "velocity_values_rendered ev (fact_values (velocityTeamsMessage p ev)) \<and>
         velocity_values_rendered ev (fact_values (standaloneTeamsMessage p ev)) \<and>
         nonfatal_values_rendered ev (fact_values (nonFatalTeamsMessage p ev))"
proof -
  from assms have ty:
    "opt_string (issue_appVersion (issue (payload ev)))"
    "opt_string (firstVersion (payload ev))"
    "opt_string (issue_id (issue (payload ev)))"
    "opt_string (appId ev)"
    by (simp_all add: typed_event_def)
  have v: "velocity_values_rendered ev (fact_values (velocityTeamsMessage p ev))"
    unfolding velocity_values_rendered_def fact_values_velocity
    using ty
    by (simp add: rendered_plain rendered_cond rendered_or is_string_or is_string_time)
  have n: "nonfatal_values_rendered ev (fact_values (nonFatalTeamsMessage p ev))"
    unfolding nonfatal_values_rendered_def fact_values_nonFatal
    using ty by (simp add: rendered_or is_string_or is_string_time)
  from v n show ?thesis by (simp add: fact_values_standalone)
qed

text \<open>The full payload of the specification's scenario is typed, and renders as expected.\<close>
theorem fact_values_rendered_witness:
  "typed_event sample_event \<and>
   fact_values (velocityTeamsMessage sample_platform sample_event) =
     [JStr ''42'', JStr ''3.5%'', JStr ''2.1.0'', JStr ''2.0.9'', JStr ''I1'', JStr ''app1'',
      JStr ''1700000000123''] \<and>
   velocity_values_rendered sample_event
     (fact_values (velocityTeamsMessage sample_platform sample_event))"
proof -
  have ty: "typed_event sample_event"
    by (simp add: typed_event_def opt_number_def opt_string_def absent_def sample_defs)
  have vs: "fact_values (velocityTeamsMessage sample_platform sample_event) =
     [JStr ''42'', JStr ''3.5%'', JStr ''2.1.0'', JStr ''2.0.9'', JStr ''I1'', JStr ''app1'',
      JStr ''1700000000123'']"
    by (simp add: fact_values_velocity sample_defs js_or_def formatted_createTime_def number_defs
        date_defs)
  from ty vs fact_values_rendered [OF ty, of sample_platform] show ?thesis by simp
qed

text \<open>
  Claim C1 as the specification states it asks for the string form of a present field
  "including numeric value 0". A crash count of zero is present and a number, its string
  form is \<open>0\<close>, and both velocity handlers show the placeholder instead: the test
  \<open>crashCount ? ... : "N/A"\<close> is a truthiness test.
\<close>
theorem zero_count_counterexample:
  "is_number (crashCount (payload zero_count_event)) \<and>
   \<not> absent (crashCount (payload zero_count_event)) \<and>
   to_string (crashCount (payload zero_count_event)) = ''0'' \<and>
   fact_values (velocityTeamsMessage sample_platform zero_count_event) ! 0 = JStr ''N/A'' \<and>
   fact_values (velocityTeamsMessage sample_platform zero_count_event) ! 0 \<noteq>
     JStr (to_string (crashCount (payload zero_count_event))) \<and>
   fact_values (standaloneTeamsMessage sample_platform zero_count_event) ! 0 = JStr ''N/A''"
  by (simp add: fact_values_standalone fact_values_velocity sample_defs absent_def)


lemma nonempty_string_truthy: "opt_string v \<Longrightarrow> is_nonempty_string v = truthy v"
  by (cases v) (auto simp: opt_string_def absent_def)

lemma subtitle_shown_builder:
  "opt_string (issueSubtitle a) \<Longrightarrow> subtitle_shown (issueSubtitle a) (buildTeamsCard a)"
  by (simp add: subtitle_shown_def nonempty_string_truthy read_defs buildTeamsCard_def)

lemma subtitle_shown_standalone:
  "opt_string (issue_subtitle (issue (payload ev))) \<Longrightarrow>
   subtitle_shown (issue_subtitle (issue (payload ev))) (standaloneTeamsMessage p ev)"
  by (simp add: subtitle_shown_def nonempty_string_truthy read_defs standaloneTeamsMessage_def)

text \<open>
  Claim C2. For a subtitle typed as the data model types it (a string, or missing), the
  subtitle block stands in the body if and only if the subtitle is a non-empty string.
  When it does, the body is header, issue title, issue subtitle, separator, fact set, in
  this order, and the block's text is the subtitle; when it does not, no block takes its
  place. This holds of the shared builder and of the card the standalone handler writes.
\<close>
theorem subtitle_block_iff:
  "(opt_string (issueSubtitle a) \<longrightarrow> subtitle_shown (issueSubtitle a) (buildTeamsCard a)) \<and>
   (opt_string (issue_subtitle (issue (payload ev))) \<longrightarrow>
      subtitle_shown (issue_subtitle (issue (payload ev))) (standaloneTeamsMessage p ev))"
  using subtitle_shown_builder subtitle_shown_standalone by blast

text \<open>A card with a subtitle has five blocks, a card without one has four.\<close>
theorem subtitle_block_iff_witness:
  "opt_string (issueSubtitle sample_args) \<and>
   opt_string (issue_subtitle (issue (payload bare_event))) \<and>
   subtitle_shown (issueSubtitle sample_args) (buildTeamsCard sample_args) \<and>
   block_types (buildTeamsCard sample_args) =
     [JStr ''ColumnSet'', JStr ''TextBlock'', JStr ''TextBlock'', JStr ''ColumnSet'',
      JStr ''FactSet''] \<and>
   subtitle_shown (issue_subtitle (issue (payload bare_event)))
     (standaloneTeamsMessage sample_platform bare_event) \<and>
   block_types (standaloneTeamsMessage sample_platform bare_event) =
     [JStr ''ColumnSet'', JStr ''TextBlock'', JStr ''ColumnSet'', JStr ''FactSet'']"
proof -
  have a: "opt_string (issueSubtitle sample_args)"
    by (simp add: opt_string_def sample_defs)
  have b: "opt_string (issue_subtitle (issue (payload bare_event)))"
    by (simp add: opt_string_def absent_def sample_defs)
  have c: "is_nonempty_string (issueSubtitle sample_args)"
    by (simp add: sample_defs)
  have d: "\<not> is_nonempty_string (issue_subtitle (issue (payload bare_event)))"
    by (simp add: sample_defs)
  from a b c d subtitle_block_iff [of sample_args bare_event sample_platform]
  show ?thesis by (simp add: subtitle_shown_def)
qed

text \<open>
  Claim C3. Whatever the event holds, the fact labels of a velocity card are Crash Count,
  Sessions Affected, App Version, First Seen In, Issue ID, App ID, Alert Time, and those
  of a non-fatal card are Issue ID, App Version, App ID, Detected At, in this order, none
  added and none dropped.
\<close>
theorem fact_order_fixed:
  "fact_titles (velocityTeamsMessage p ev) =
     [JStr (emoji_collision @ '' Crash Count''), JStr (emoji_chart @ '' Sessions Affected''),
      JStr (emoji_phone @ '' App Version''), JStr (emoji_label @ '' First Seen In''),
      JStr (emoji_id @ '' Issue ID''), JStr (emoji_package @ '' App ID''),
      JStr (emoji_clock @ '' Alert Time'')] \<and>
   fact_titles (standaloneTeamsMessage p ev) = fact_titles (velocityTeamsMessage p ev) \<and>
   fact_titles (nonFatalTeamsMessage p ev) =
     [JStr (emoji_id @ '' Issue ID''), JStr (emoji_phone @ '' App Version''),
      JStr (emoji_package @ '' App ID''), JStr (emoji_clock @ '' Detected At'')]"
  by (simp add: read_defs build_defs)

lemma console_link_strings:
  "appId ev = JStr a \<Longrightarrow> issue_id (issue (payload ev)) = JStr i \<Longrightarrow>
   firebaseConsoleLink ev =
     JStr (''https://console.firebase.google.com/project/_/crashlytics/app/'' @ a @ ''/issues/'' @ i)"
  by (simp add: firebaseConsoleLink_def)

lemma actions_of_cards:
  "map (jsget ''type'') (card_actions (velocityTeamsMessage p ev)) = [JStr ''Action.OpenUrl'']"
  "map (jsget ''url'') (card_actions (velocityTeamsMessage p ev)) = [firebaseConsoleLink ev]"
  "map (jsget ''type'') (card_actions (nonFatalTeamsMessage p ev)) = [JStr ''Action.OpenUrl'']"
  "map (jsget ''url'') (card_actions (nonFatalTeamsMessage p ev)) = [firebaseConsoleLink ev]"
  "map (jsget ''type'') (card_actions (standaloneTeamsMessage p ev)) = [JStr ''Action.OpenUrl'']"
  "map (jsget ''url'') (card_actions (standaloneTeamsMessage p ev)) = [firebaseConsoleLink ev]"
  by (simp_all add: read_defs build_defs)

text \<open>
  Claim C4. For an event with application identifier \<open>a\<close> and issue identifier \<open>i\<close>, the
  deep link is the fixed prefix, \<open>a\<close>, \<open>/issues/\<close> and \<open>i\<close>, with nothing encoded, and in
  each handler's card it is the URL of the one action, which is an \<open>Action.OpenUrl\<close>.
\<close>
theorem console_link_substitution:
  assumes "appId ev = JStr a" and "issue_id (issue (payload ev)) = JStr i"
  shows "firebaseConsoleLink ev =
           JStr (''https://console.firebase.google.com/project/_/crashlytics/app/''
                 @ a @ ''/issues/'' @ i) \<and>
         map (jsget ''type'') (card_actions (velocityTeamsMessage p ev)) =
           [JStr ''Action.OpenUrl''] \<and>
         map (jsget ''url'') (card_actions (velocityTeamsMessage p ev)) =
           [JStr (''https://console.firebase.google.com/project/_/crashlytics/app/''
                  @ a @ ''/issues/'' @ i)] \<and>
         map (jsget ''type'') (card_actions (nonFatalTeamsMessage p ev)) =
           [JStr ''Action.OpenUrl''] \<and>
         map (jsget ''url'') (card_actions (nonFatalTeamsMessage p ev)) =
           [JStr (''https://console.firebase.google.com/project/_/crashlytics/app/''
                  @ a @ ''/issues/'' @ i)] \<and>
         map (jsget ''type'') (card_actions (standaloneTeamsMessage p ev)) =
           [JStr ''Action.OpenUrl''] \<and>
         map (jsget ''url'') (card_actions (standaloneTeamsMessage p ev)) =
           [JStr (''https://console.firebase.google.com/project/_/crashlytics/app/''
                  @ a @ ''/issues/'' @ i)]"
  using console_link_strings [OF assms] by (simp add: actions_of_cards)

text \<open>The link of the scenario's event.\<close>
theorem console_link_substitution_witness:
  "appId sample_event = JStr ''app1'' \<and>
   issue_id (issue (payload sample_event)) = JStr ''I1'' \<and>
   map (jsget ''url'') (card_actions (velocityTeamsMessage sample_platform sample_event)) =
     [JStr ''https://console.firebase.google.com/project/_/crashlytics/app/app1/issues/I1'']"
proof -
  have a: "appId sample_event = JStr ''app1''" by (simp add: sample_defs)
  have i: "issue_id (issue (payload sample_event)) = JStr ''I1''" by (simp add: sample_defs)
  from a i console_link_substitution [OF a i, of sample_platform] show ?thesis by simp
qed


lemma axios_post_cases:
  "axios_post (network p) (teams_request p msg) = Inr resp \<Longrightarrow> delivered p msg"
  "axios_post (network p) (teams_request p msg) = Inl err \<Longrightarrow> \<not> delivered p msg"
  by (auto simp: axios_post_def delivered_def validateStatus_def
      split: net_result.splits if_splits)

lemma error_detail_body_or_message: "error_detail err = body_or_message err"
  by (simp add: error_detail_def body_or_message_def js_or_def split: option.splits)

lemma sendToTeams_contract:
  "delivery_contract p msg (emoji_check @ '' Teams notification sent. Status:'')
     (emoji_cross @ '' Failed to send Teams notification:'') (logged w) (sendToTeams p msg w)"
proof (cases "axios_post (network p) (teams_request p msg)")
  case (Inl err)
  then show ?thesis
    using axios_post_cases(2) [OF Inl]
    by (simp add: delivery_contract_def sendToTeams_def teams_request_def Let_def
        error_detail_body_or_message)
next
  case (Inr resp)
  then show ?thesis
    using axios_post_cases(1) [OF Inr]
    by (simp add: delivery_contract_def sendToTeams_def teams_request_def Let_def)
qed

lemma standalone_contract:
  "delivery_contract p (standaloneTeamsMessage p ev)
     (emoji_check @ '' Teams notification sent successfully. Status:'')
     (emoji_cross @ '' Failed to send Teams notification:'')
     (logged w @ [LogInfo (emoji_siren @ '' Crashlytics velocity alert received'')
                    (Payload (payload ev))])
     (standaloneSendVelocityAlertToTeams p ev w)"
proof (cases "axios_post (network p) (teams_request p (standaloneTeamsMessage p ev))")
  case (Inl err)
  then show ?thesis
    using axios_post_cases(2) [OF Inl]
    by (simp add: delivery_contract_def standaloneSendVelocityAlertToTeams_def teams_request_def
        Let_def error_detail_body_or_message)
next
  case (Inr resp)
  then show ?thesis
    using axios_post_cases(1) [OF Inr]
    by (simp add: delivery_contract_def standaloneSendVelocityAlertToTeams_def teams_request_def
        Let_def)
qed

text \<open>
  Claim C5. The shared helper and the try/catch of the standalone handler return normally
  exactly when the webhook answers with a status from 200 to 299, and then log that
  status; in every other case they log the body of the response when there is one (the
  message of the error otherwise) and throw the client's error on to the caller. The two
  handlers of part\_000 end as the shared helper ends.
\<close>
theorem delivery_never_swallowed:
  "delivery_contract p msg (emoji_check @ '' Teams notification sent. Status:'')
     (emoji_cross @ '' Failed to send Teams notification:'') (logged w) (sendToTeams p msg w) \<and>
   delivery_contract p (standaloneTeamsMessage p ev)
     (emoji_check @ '' Teams notification sent successfully. Status:'')
     (emoji_cross @ '' Failed to send Teams notification:'')
     (logged w @ [LogInfo (emoji_siren @ '' Crashlytics velocity alert received'')
                    (Payload (payload ev))])
     (standaloneSendVelocityAlertToTeams p ev w) \<and>
   fst (sendVelocityAlertToTeams p ev w) = fst (sendToTeams p (velocityTeamsMessage p ev) w) \<and>
   fst (sendNonFatalIssueToTeams p ev w) = fst (sendToTeams p (nonFatalTeamsMessage p ev) w)"
proof -
  have "fst (sendVelocityAlertToTeams p ev w) = fst (sendToTeams p (velocityTeamsMessage p ev) w)"
    by (simp add: sendVelocityAlertToTeams_def sendToTeams_def Let_def split: sum.splits)
  moreover
  have "fst (sendNonFatalIssueToTeams p ev w) = fst (sendToTeams p (nonFatalTeamsMessage p ev) w)"
    by (simp add: sendNonFatalIssueToTeams_def sendToTeams_def Let_def split: sum.splits)
  ultimately show ?thesis
    using sendToTeams_contract [of p msg w] standalone_contract [of p ev w] by blast
qed


text \<open>A webhook answering 500 fails the call and logs the body; one answering 200 does not.\<close>
theorem delivery_never_swallowed_witness:
  "\<not> delivered failing_platform (JStr ''card'') \<and>
   fst (sendToTeams failing_platform (JStr ''card'') empty_world) =
     Inl \<lparr> response = Some \<lparr> status = 500, data = JStr ''boom'' \<rparr>,
           message = ''Request failed with status code 500'' \<rparr> \<and>
   logged (snd (sendToTeams failing_platform (JStr ''card'') empty_world)) =
     [LogError (emoji_cross @ '' Failed to send Teams notification:'') (Value (JStr ''boom''))] \<and>
   delivered sample_platform (JStr ''card'') \<and>
   fst (sendToTeams sample_platform (JStr ''card'') empty_world) = Inr () \<and>
   logged (snd (sendToTeams sample_platform (JStr ''card'') empty_world)) =
     [LogInfo (emoji_check @ '' Teams notification sent. Status:'') (Value (JNum (Dec 200 0)))]"
proof -
  have bad: "axios_post (network failing_platform) (teams_request failing_platform (JStr ''card'')) =
     Inl \<lparr> response = Some \<lparr> status = 500, data = JStr ''boom'' \<rparr>,
           message = ''Request failed with status code 500'' \<rparr>"
    by (simp add: axios_post_def validateStatus_def sample_defs digits_of.simps digit_char_def)
  have good: "axios_post (network sample_platform) (teams_request sample_platform (JStr ''card'')) =
     Inr \<lparr> status = 200, data = JNum (Dec 1 0) \<rparr>"
    by (simp add: axios_post_def validateStatus_def sample_defs)
  have nolog: "logged empty_world = []"
    by (simp add: sample_defs)
  from delivery_never_swallowed [of failing_platform "JStr ''card''" empty_world sample_event] bad
  have f: "\<not> delivered failing_platform (JStr ''card'') \<and>
     fst (sendToTeams failing_platform (JStr ''card'') empty_world) =
       Inl \<lparr> response = Some \<lparr> status = 500, data = JStr ''boom'' \<rparr>,
             message = ''Request failed with status code 500'' \<rparr> \<and>
     logged (snd (sendToTeams failing_platform (JStr ''card'') empty_world)) =
       [LogError (emoji_cross @ '' Failed to send Teams notification:'') (Value (JStr ''boom''))]"
    by (simp add: delivery_contract_def nolog body_or_message_def)
  from delivery_never_swallowed [of sample_platform "JStr ''card''" empty_world sample_event] good
  have g: "delivered sample_platform (JStr ''card'') \<and>
     fst (sendToTeams sample_platform (JStr ''card'') empty_world) = Inr () \<and>
     logged (snd (sendToTeams sample_platform (JStr ''card'') empty_world)) =
       [LogInfo (emoji_check @ '' Teams notification sent. Status:'') (Value (JNum (Dec 200 0)))]"
    by (simp add: delivery_contract_def nolog)
  from f g show ?thesis by blast
qed

lemma digits_of_nonempty: "digits_of n \<noteq> []"
  by (subst digits_of.simps) simp

lemma digit_char_digit: "digit_char d \<in> set ''0123456789''"
  unfolding digit_char_def by (rule nth_mem) simp

lemma digits_of_digits: "set (digits_of n) \<subseteq> set ''0123456789''"
proof (induction n rule: digits_of.induct)
  case (1 n)
  show ?case
  proof (cases "n < 10")
    case True
    then have "digits_of n = [digit_char n]"
      by (subst digits_of.simps) simp
    with digit_char_digit [of n] show ?thesis by simp
  next
    case False
    then have "digits_of n = digits_of (n div 10) @ [digit_char (n mod 10)]"
      by (subst digits_of.simps) simp
    with "1.IH" [OF False] digit_char_digit [of "n mod 10"] show ?thesis by simp
  qed
qed

lemma date_text_has_digit: "\<exists>c \<in> set (date_text f). c \<in> set ''0123456789''"
proof -
  obtain c where c: "c \<in> set (digits_of (first_number f))"
    using digits_of_nonempty [of "first_number f"] by (cases "digits_of (first_number f)") auto
  with digits_of_digits [of "first_number f"] have "c \<in> set ''0123456789''" by blast
  with c show ?thesis by (auto simp: date_text_def)
qed

lemma date_text_not_placeholder: "date_text f \<noteq> []" "date_text f \<noteq> ''N/A''"
  using date_text_has_digit [of f] by auto

lemma now_string_not_placeholder:
  "toLocaleString p (newDateNow p) \<noteq> []" "toLocaleString p (newDateNow p) \<noteq> ''N/A''"
  by (simp_all add: toLocaleString_def newDateNow_def date_text_not_placeholder)

lemma time_rendered_formatted: "time_rendered p ct (formatted_createTime p ct)"
  by (auto simp: time_rendered_def formatted_createTime_def absent_def
      now_string_not_placeholder)

text \<open>
  Claim C6, as amended. The last fact of each card, Alert Time or Detected At, is the
  locale's formatting of \<open>createTime\<close> when that is truthy, and the formatting of the
  clock's reading when it is missing or otherwise falsy (millisecond zero, the empty
  string); in the missing case the value is neither empty nor \<open>N/A\<close>, since the
  formatting of a valid date holds at least one numeric field.
\<close>
theorem alert_time_value:
  "fact_titles (velocityTeamsMessage p ev) ! 6 = JStr (emoji_clock @ '' Alert Time'') \<and>
   time_rendered p (createTime (payload ev)) (fact_values (velocityTeamsMessage p ev) ! 6) \<and>
   fact_titles (standaloneTeamsMessage p ev) ! 6 = JStr (emoji_clock @ '' Alert Time'') \<and>
   time_rendered p (createTime (payload ev)) (fact_values (standaloneTeamsMessage p ev) ! 6) \<and>
   fact_titles (nonFatalTeamsMessage p ev) ! 3 = JStr (emoji_clock @ '' Detected At'') \<and>
   time_rendered p (createTime (payload ev)) (fact_values (nonFatalTeamsMessage p ev) ! 3)"
proof -
  have t: "fact_titles (velocityTeamsMessage p ev) ! 6 = JStr (emoji_clock @ '' Alert Time'')"
    "fact_titles (standaloneTeamsMessage p ev) ! 6 = JStr (emoji_clock @ '' Alert Time'')"
    "fact_titles (nonFatalTeamsMessage p ev) ! 3 = JStr (emoji_clock @ '' Detected At'')"
    by (simp_all add: read_defs build_defs)
  have v: "fact_values (velocityTeamsMessage p ev) ! 6 = formatted_createTime p (createTime (payload ev))"
    "fact_values (standaloneTeamsMessage p ev) ! 6 = formatted_createTime p (createTime (payload ev))"
    "fact_values (nonFatalTeamsMessage p ev) ! 3 = formatted_createTime p (createTime (payload ev))"
    by (simp_all add: fact_values_standalone fact_values_velocity fact_values_nonFatal)
  show ?thesis
    unfolding t v using time_rendered_formatted [of p "createTime (payload ev)"] by simp
qed

text \<open>An event without a time shows the clock's reading, an event with one shows that time.\<close>
theorem alert_time_value_witness:
  "absent (createTime (payload bare_event)) \<and>
   fact_values (nonFatalTeamsMessage sample_platform bare_event) ! 3 = JStr ''1762169040321'' \<and>
   truthy (createTime (payload sample_event)) \<and>
   fact_values (velocityTeamsMessage sample_platform sample_event) ! 6 = JStr ''1700000000123''"
proof -
  have a: "absent (createTime (payload bare_event))"
    by (simp add: absent_def sample_defs)
  have b: "truthy (createTime (payload sample_event))"
    by (simp add: sample_defs)
  have now: "toLocaleString sample_platform (newDateNow sample_platform) = ''1762169040321''"
    by (simp add: sample_defs date_defs)
  have at: "toLocaleString sample_platform
              (newDate sample_platform (createTime (payload sample_event))) = ''1700000000123''"
    by (simp add: sample_defs date_defs)
  from alert_time_value [of sample_platform bare_event] a now
  have c: "fact_values (nonFatalTeamsMessage sample_platform bare_event) ! 3 = JStr ''1762169040321''"
    by (simp add: time_rendered_def)
  from alert_time_value [of sample_platform sample_event] b at
  have d: "fact_values (velocityTeamsMessage sample_platform sample_event) ! 6 = JStr ''1700000000123''"
    by (simp add: time_rendered_def)
  from a b c d show ?thesis by blast
qed

text \<open>
  Claim C6 as the specification states it asks for the formatting of \<open>createTime\<close>
  whenever it is present. A \<open>createTime\<close> of millisecond zero is present, and both
  velocity handlers show the clock's reading instead of the epoch.
\<close>
theorem epoch_time_counterexample:
  "is_number (createTime (payload epoch_event)) \<and>
   \<not> absent (createTime (payload epoch_event)) \<and>
   fact_values (velocityTeamsMessage sample_platform epoch_event) ! 6 =
     JStr (toLocaleString sample_platform (newDateNow sample_platform)) \<and>
   fact_values (velocityTeamsMessage sample_platform epoch_event) ! 6 \<noteq>
     JStr (toLocaleString sample_platform
             (newDate sample_platform (createTime (payload epoch_event)))) \<and>
   fact_values (standaloneTeamsMessage sample_platform epoch_event) ! 6 =
     JStr (toLocaleString sample_platform (newDateNow sample_platform))"
  by (simp add: fact_values_standalone fact_values_velocity formatted_createTime_def
      sample_defs absent_def date_defs)

lemma wire_envelope_cards:
  "wire_envelope (buildTeamsCard a)"
  "wire_envelope (standaloneTeamsMessage p ev)"
  "wire_envelope (velocityTeamsMessage p ev)"
  "wire_envelope (nonFatalTeamsMessage p ev)"
  by (simp_all add: wire_envelope_def read_defs build_defs)

text \<open>
  Claim C7. Every card of the builder, and the message that each of the three handlers
  posts for any event, has the envelope \<open>type: "message"\<close> with exactly one attachment
  of the adaptive-card content type, whose content is an \<open>AdaptiveCard\<close> of version
  \<open>1.4\<close>; and a delivery hands exactly one request to the HTTP client: that message,
  for the webhook URL, with the header \<open>Content-Type: application/json\<close>.
\<close>
theorem wire_envelope_and_single_post:
  "wire_envelope (buildTeamsCard a) \<and>
   wire_envelope (velocityTeamsMessage p ev) \<and>
   wire_envelope (nonFatalTeamsMessage p ev) \<and>
   wire_envelope (standaloneTeamsMessage p ev) \<and>
   sent (snd (sendToTeams p msg w)) =
     sent w @ [\<lparr> url = TEAMS_WEBHOOK_URL p, body = msg,
                 headers = [(''Content-Type'', ''application/json'')] \<rparr>] \<and>
   sent (snd (sendVelocityAlertToTeams p ev w)) =
     sent w @ [\<lparr> url = TEAMS_WEBHOOK_URL p, body = velocityTeamsMessage p ev,
                 headers = [(''Content-Type'', ''application/json'')] \<rparr>] \<and>
   sent (snd (sendNonFatalIssueToTeams p ev w)) =
     sent w @ [\<lparr> url = TEAMS_WEBHOOK_URL p, body = nonFatalTeamsMessage p ev,
                 headers = [(''Content-Type'', ''application/json'')] \<rparr>] \<and>
   sent (snd (standaloneSendVelocityAlertToTeams p ev w)) =
     sent w @ [\<lparr> url = TEAMS_WEBHOOK_URL p, body = standaloneTeamsMessage p ev,
                 headers = [(''Content-Type'', ''application/json'')] \<rparr>]"
proof -
  have s: "sent (snd (sendToTeams p m v)) =
     sent v @ [\<lparr> url = TEAMS_WEBHOOK_URL p, body = m,
                 headers = [(''Content-Type'', ''application/json'')] \<rparr>]" for m v
    by (simp add: sendToTeams_def json_headers_def Let_def split: sum.splits)
  have a: "sent (snd (standaloneSendVelocityAlertToTeams p ev w)) =
     sent w @ [\<lparr> url = TEAMS_WEBHOOK_URL p, body = standaloneTeamsMessage p ev,
                 headers = [(''Content-Type'', ''application/json'')] \<rparr>]"
    by (simp add: standaloneSendVelocityAlertToTeams_def json_headers_def Let_def
        split: sum.splits)
  show ?thesis
    by (simp add: wire_envelope_cards s a sendVelocityAlertToTeams_def
        sendNonFatalIssueToTeams_def Let_def)
qed





lemma action_styles:
  "map (jsget ''style'') (card_actions (standaloneTeamsMessage p ev)) = [JStr ''destructive'']"
  "map (jsget ''style'') (card_actions (velocityTeamsMessage p ev)) = [JUndefined]"
  by (simp_all add: read_defs build_defs)

text \<open>
  Claim C9 as the specification states it: the two velocity handlers build the same
  document. On the scenario's event they do not.
\<close>
theorem standalone_differs_counterexample:
  "standaloneTeamsMessage sample_platform sample_event \<noteq>
   velocityTeamsMessage sample_platform sample_event"
proof
  assume "standaloneTeamsMessage sample_platform sample_event =
          velocityTeamsMessage sample_platform sample_event"
  then have "map (jsget ''style'') (card_actions (standaloneTeamsMessage sample_platform sample_event)) =
             map (jsget ''style'') (card_actions (velocityTeamsMessage sample_platform sample_event))"
    by simp
  then show False by (simp add: action_styles)
qed

text \<open>
  Claim C9, as amended. The card of the standalone handler and the card that the handler
  of part\_000 builds for the same event and platform differ in one property only: the
  action button of the former has \<open>style: "destructive"\<close>, that of the latter has no
  style. With that property removed the two documents are equal.
\<close>
theorem standalone_equals_builder_up_to_style:
  "without_action_style (standaloneTeamsMessage p ev) = velocityTeamsMessage p ev \<and>
   without_action_style (velocityTeamsMessage p ev) = velocityTeamsMessage p ev \<and>
   map (jsget ''style'') (card_actions (standaloneTeamsMessage p ev)) = [JStr ''destructive''] \<and>
   map (jsget ''style'') (card_actions (velocityTeamsMessage p ev)) = [JUndefined]"
proof -
  have a: "without_action_style (standaloneTeamsMessage p ev) = velocityTeamsMessage p ev"
    by (simp add: without_action_style_def build_defs formatted_createTime_def)
  have b: "without_action_style (velocityTeamsMessage p ev) = velocityTeamsMessage p ev"
    by (simp add: without_action_style_def build_defs)
  from a b show ?thesis by (simp add: action_styles)
qed

lemma eval_expr_pure: "\<not> reads_platform e \<Longrightarrow> eval_expr p env e = eval_expr q env e"
proof (induction e)
  case (EObj kes)
  have "(case ke of (k, e) \<Rightarrow> (k, eval_expr p env e)) = (case ke of (k, e) \<Rightarrow> (k, eval_expr q env e))"
    if "ke \<in> set kes" for ke
  proof (cases ke)
    case (Pair k e)
    with that EObj.prems have "\<not> reads_platform e"
      by (auto simp: list_ex_iff)
    with that Pair EObj.IH [of ke e] show ?thesis by simp
  qed
  then show ?case by (simp cong: map_cong)
next
  case (EArr items)
  have "(case ie of (spread, e) \<Rightarrow>
           if spread then elements (eval_expr p env e) else [eval_expr p env e]) =
        (case ie of (spread, e) \<Rightarrow>
           if spread then elements (eval_expr q env e) else [eval_expr q env e])"
    if "ie \<in> set items" for ie
  proof (cases ie)
    case (Pair spread e)
    with that EArr.prems have "\<not> reads_platform e"
      by (auto simp: list_ex_iff)
    with that Pair EArr.IH [of ie e] show ?thesis by simp
  qed
  then show ?case by (simp cong: map_cong)
qed simp_all

lemma body_pure: "\<not> reads_platform buildTeamsCard_body"
  by (simp add: buildTeamsCard_body_def)

lemma body_eval: "eval_expr p (parameters a) buildTeamsCard_body = buildTeamsCard a"
  by (simp add: buildTeamsCard_body_def buildTeamsCard_def parameters_def)

lemma parameters_eq:
  assumes "emoji a = emoji b" and "title a = title b" and "subtitle a = subtitle b"
    and "issueTitle a = issueTitle b" and "issueSubtitle a = issueSubtitle b"
    and "facts a = facts b" and "consoleLink a = consoleLink b"
    and "accentColor a = accentColor b"
  shows "parameters a = parameters b"
  using assms by (auto simp: parameters_def fun_eq_iff)

text \<open>
  Claim C10. The expression the builder returns contains no read of the platform: no
  clock, no secret, nothing but literals and its eight parameters. So on any two
  platforms, two calls whose eight arguments are equal return equal documents, which
  are the document of \<open>buildTeamsCard\<close>. The expression the handlers write for the time
  fact does read the clock: the fallback to the current time happens there, before the
  builder is called.
\<close>
theorem builder_deterministic:
  "\<not> reads_platform buildTeamsCard_body \<and>
   eval_expr p (parameters a) buildTeamsCard_body = buildTeamsCard a \<and>
   (emoji a = emoji b \<and> title a = title b \<and> subtitle a = subtitle b \<and>
    issueTitle a = issueTitle b \<and> issueSubtitle a = issueSubtitle b \<and>
    facts a = facts b \<and> consoleLink a = consoleLink b \<and> accentColor a = accentColor b \<longrightarrow>
      eval_expr p (parameters a) buildTeamsCard_body =
      eval_expr q (parameters b) buildTeamsCard_body) \<and>
   reads_platform createTime_fallback \<and>
   eval_expr p env createTime_fallback = formatted_createTime p (env ''createTime'')"
proof -
  have same: "eval_expr p (parameters a) buildTeamsCard_body =
              eval_expr q (parameters b) buildTeamsCard_body"
    if "parameters a = parameters b"
    using that eval_expr_pure [OF body_pure, of p "parameters b" q] by simp
  have fallback: "eval_expr p env createTime_fallback = formatted_createTime p (env ''createTime'')"
    by (simp add: createTime_fallback_def formatted_createTime_def)
  have reads: "reads_platform createTime_fallback"
    by (simp add: createTime_fallback_def)
  from same parameters_eq [of a b] fallback reads body_pure body_eval [of p a]
  show ?thesis by blast
qed

text \<open>
  Two platforms whose clocks differ: the builder returns the same document on both,
  while the time fact of an event without \<open>createTime\<close> differs.
\<close>
theorem builder_deterministic_witness:
  "clock sample_platform \<noteq> clock later_platform \<and>
   eval_expr sample_platform (parameters sample_args) buildTeamsCard_body =
     eval_expr later_platform (parameters sample_args) buildTeamsCard_body \<and>
   eval_expr sample_platform (parameters sample_args) buildTeamsCard_body =
     buildTeamsCard sample_args \<and>
   eval_expr sample_platform (\<lambda>x. JUndefined) createTime_fallback = JStr ''1762169040321'' \<and>
   eval_expr later_platform (\<lambda>x. JUndefined) createTime_fallback = JStr ''1762169041321''"
proof -
  have c: "clock sample_platform \<noteq> clock later_platform"
    by (simp add: sample_defs)
  have s: "formatted_createTime sample_platform JUndefined = JStr ''1762169040321''"
    by (simp add: formatted_createTime_def sample_defs date_defs)
  have l: "formatted_createTime later_platform JUndefined = JStr ''1762169041321''"
    by (simp add: formatted_createTime_def sample_defs date_defs)
  from builder_deterministic [of sample_platform sample_args sample_args later_platform
      "\<lambda>x. JUndefined"] s
  have a: "eval_expr sample_platform (parameters sample_args) buildTeamsCard_body =
             eval_expr later_platform (parameters sample_args) buildTeamsCard_body \<and>
           eval_expr sample_platform (parameters sample_args) buildTeamsCard_body =
             buildTeamsCard sample_args \<and>
           eval_expr sample_platform (\<lambda>x. JUndefined) createTime_fallback = JStr ''1762169040321''"
    by metis
  from builder_deterministic [of later_platform sample_args sample_args later_platform
      "\<lambda>x. JUndefined"] l
  have b: "eval_expr later_platform (\<lambda>x. JUndefined) createTime_fallback = JStr ''1762169041321''"
    by simp
  from a b c show ?thesis by blast
qed

end
